theory Spec2Isabelle
  imports Complex_Main
begin

section \<open>Python values and errors\<close>

text \<open>
  The exceptions the modelled code can meet. Every raise of the source, of the
  interpreter and of the libraries it calls is a value \<open>Inl e\<close> of a sum type.
\<close>

datatype py_error =
    ValueError
  | ZeroDivisionError
  | KeyError
  | AttributeError
  | FileNotFoundError
  | FileExistsError
  | NotADirectoryError
  | IsADirectoryError
  | PermissionError

text \<open>
  The values stored in a record of the dataset and in a cell of a data frame: a string,
  an integer, or a float. Floats are modelled by the reals (no rounding error, no
  infinities): the claims proved below are about the shape of the formulas and the
  ranges of the draws, not about the last bit of a double.
\<close>

datatype cell = StrV string | IntV int | FloatV real

section \<open>Identifier formatting (generate\_data.py, lines 105 and 106)\<close>

text \<open>
  The format specifications \<^verbatim>\<open>06x\<close> and \<^verbatim>\<open>08d\<close> of an f-string: the digits of a
  non-negative integer in base 16 (lower case) or 10, most significant first, padded with
  zeros on the left up to the width. The index of a row comes from \<^verbatim>\<open>range\<close>, so the
  number formatted, \<open>i + 1\<close>, is a natural number.
\<close>

definition digit_char :: "nat \<Rightarrow> char" where
  "digit_char d = ''0123456789abcdef'' ! d"

function digits_of :: "nat \<Rightarrow> nat \<Rightarrow> string" where
  "digits_of b n =
     (if 2 \<le> b \<and> b \<le> n then digits_of b (n div b) @ [digit_char (n mod b)]
      else [digit_char n])"
  by pat_completeness auto
termination
  by (relation "measure (\<lambda>(b, n). n)") auto

declare digits_of.simps [simp del]

definition zero_pad :: "nat \<Rightarrow> string \<Rightarrow> string" where
  "zero_pad w s = replicate (w - length s) (CHR ''0'') @ s"

definition format_06x :: "nat \<Rightarrow> string" where
  "format_06x n = zero_pad 6 (digits_of 16 n)"

definition format_08d :: "nat \<Rightarrow> string" where
  "format_08d n = zero_pad 8 (digits_of 10 n)"

definition record_ID :: "nat \<Rightarrow> string" where
  "record_ID i = ''CUS_0x'' @ format_06x (i + 1)"

definition record_Customer_ID :: "nat \<Rightarrow> string" where
  "record_Customer_ID i = ''CUS_'' @ format_08d (i + 1)"

text \<open>Reading a digit string back, used only to prove that formatting is injective.\<close>

definition digit_val :: "char \<Rightarrow> nat" where
  "digit_val c = length (takeWhile (\<lambda>x. x \<noteq> c) ''0123456789abcdef'')"

definition val_of :: "nat \<Rightarrow> string \<Rightarrow> nat" where
  "val_of b s = foldl (\<lambda>acc c. acc * b + digit_val c) 0 s"


section \<open>Data frames\<close>

text \<open>
  A Python dict with string keys is an association list: the order of insertion is the
  order of the keys, and pandas reads the columns of a frame from it. A data frame is its
  list of column names and its rows, one optional cell per column (\<open>None\<close> is the NaN
  pandas stores for a key that a record lacks).
\<close>

type_synonym pydict = "(string \<times> cell) list"

record dataframe =
  columns :: "string list"
  rows :: "cell option list list"

text \<open>
  \<^verbatim>\<open>pd.DataFrame(data)\<close> for a list of dicts: the columns are the keys of the dicts in
  the order of their first appearance, and each dict gives one row. For the empty list
  there is no dict to read a key from: the frame has no column and no row.
\<close>

definition add_keys :: "string list \<Rightarrow> pydict \<Rightarrow> string list" where
  "add_keys cols d = cols @ filter (\<lambda>k. k \<notin> set cols) (remdups (map fst d))"

definition DataFrame :: "pydict list \<Rightarrow> dataframe" where
  "DataFrame data =
     (let cols = foldl add_keys [] data
      in \<lparr>columns = cols, rows = map (\<lambda>d. map (map_of d) cols) data\<rparr>)"

text \<open>\<^verbatim>\<open>df.shape\<close>, and \<^verbatim>\<open>df[c]\<close>, which raises KeyError for a name that is no column.\<close>

definition shape :: "dataframe \<Rightarrow> nat \<times> nat" where
  "shape df = (length (rows df), length (columns df))"

fun index_of :: "'a list \<Rightarrow> 'a \<Rightarrow> nat option" where
  "index_of [] c = None"
| "index_of (x # xs) c = (if x = c then Some 0 else map_option Suc (index_of xs c))"

definition df_getitem :: "dataframe \<Rightarrow> string \<Rightarrow> py_error + cell option list" where
  "df_getitem df c =
     (case index_of (columns df) c of
        None \<Rightarrow> Inl KeyError
      | Some k \<Rightarrow> Inr (map (\<lambda>r. r ! k) (rows df)))"

section \<open>The file system\<close>

text \<open>
  Paths are lists of components below the working directory (\<open>[]\<close> is the working
  directory itself). A node is a directory or a file holding a written table. Creating an
  entry in a directory of \<open>readonly\<close> is refused by the operating system.
\<close>

type_synonym path = "string list"

datatype node = Dir | File dataframe

record filesystem =
  nodes :: "path \<Rightarrow> node option"
  readonly :: "path set"

section \<open>The random generators\<close>

text \<open>
  The script draws from two ambient generators: the global one of \<^verbatim>\<open>numpy.random\<close> and
  the one that \<^verbatim>\<open>Faker\<close> shares between its instances. Neither library is part of the
  repository, so their samplers are parameters of the model: a sampler takes the
  generator's state and returns a value and the next state. Which value it returns is left
  open; what the libraries document about it is the contract \<open>libs_ok\<close> below.
\<close>

record ('g, 'r) libs =
  seed_np :: "nat \<Rightarrow> 'g"
  sample_randint :: "int \<Rightarrow> int \<Rightarrow> 'g \<Rightarrow> int \<times> 'g"
  sample_lognormal :: "real \<Rightarrow> real \<Rightarrow> 'g \<Rightarrow> real \<times> 'g"
  sample_uniform :: "real \<Rightarrow> real \<Rightarrow> 'g \<Rightarrow> real \<times> 'g"
  sample_choice :: "nat \<Rightarrow> real list option \<Rightarrow> 'g \<Rightarrow> nat \<times> 'g"
  sample_poisson :: "real \<Rightarrow> 'g \<Rightarrow> nat \<times> 'g"
  sample_normal :: "real \<Rightarrow> real \<Rightarrow> 'g \<Rightarrow> real \<times> 'g"
  sample_random :: "'g \<Rightarrow> real \<times> 'g"
  seed_py :: "nat \<Rightarrow> 'r"
  sample_name :: "'r \<Rightarrow> string \<times> 'r"
  sample_ssn :: "'r \<Rightarrow> string \<times> 'r"

text \<open>
  The documented ranges: \<^verbatim>\<open>randint(low, high)\<close> lies in \<open>[low, high)\<close>,
  \<^verbatim>\<open>uniform(low, high)\<close> between its bounds, \<^verbatim>\<open>choice\<close> picks a position of its
  list, \<^verbatim>\<open>random()\<close> lies in \<open>[0, 1)\<close>.
\<close>

definition libs_ok :: "('g, 'r) libs \<Rightarrow> bool" where
  "libs_ok L \<longleftrightarrow>
     (\<forall>lo hi g. lo < hi \<longrightarrow> lo \<le> fst (sample_randint L lo hi g) \<and> fst (sample_randint L lo hi g) < hi) \<and>
     (\<forall>lo hi g. lo \<le> hi \<longrightarrow> lo \<le> fst (sample_uniform L lo hi g) \<and> fst (sample_uniform L lo hi g) \<le> hi) \<and>
     (\<forall>n p g. 0 < n \<longrightarrow> fst (sample_choice L n p g) < n) \<and>
     (\<forall>g. 0 \<le> fst (sample_random L g) \<and> fst (sample_random L g) < 1)"

text \<open>
  The state of the running process: the three generators that the top of the module
  seeds (numpy's, the standard library's and Faker's) and the file system.
\<close>

record ('g, 'r) process =
  np_state :: 'g
  random_state :: 'r
  faker_state :: 'r
  fs :: filesystem

text \<open>
  A statement of the script either raises or returns a value and the process state after
  it. \<open>bindG\<close> sequences two statements, \<open>returnG\<close> is an assignment of a value that
  cannot fail, \<open>liftE\<close> an expression that can raise but touches no state.
\<close>

type_synonym ('a, 'g, 'r) gen = "('g, 'r) process \<Rightarrow> py_error + 'a \<times> ('g, 'r) process"

definition bindG :: "('a, 'g, 'r) gen \<Rightarrow> ('a \<Rightarrow> ('b, 'g, 'r) gen) \<Rightarrow> ('b, 'g, 'r) gen" where
  "bindG m f s = (case m s of Inl e \<Rightarrow> Inl e | Inr (x, s') \<Rightarrow> f x s')"

definition returnG :: "'a \<Rightarrow> ('a, 'g, 'r) gen" where
  "returnG x s = Inr (x, s)"

definition liftE :: "py_error + 'a \<Rightarrow> ('a, 'g, 'r) gen" where
  "liftE r s = (case r of Inl e \<Rightarrow> Inl e | Inr x \<Rightarrow> Inr (x, s))"

definition bindE :: "py_error + 'a \<Rightarrow> ('a \<Rightarrow> py_error + 'b) \<Rightarrow> py_error + 'b" where
  "bindE r f = (case r of Inl e \<Rightarrow> Inl e | Inr x \<Rightarrow> f x)"

text \<open>
  The calls of \<^verbatim>\<open>np.random\<close> as the script makes them: numpy checks the arguments,
  raises ValueError for a bad one, and otherwise samples and advances the global state.
\<close>

definition with_np :: "('g \<Rightarrow> 'a \<times> 'g) \<Rightarrow> ('a, 'g, 'r) gen" where
  "with_np f s = (case f (np_state s) of (x, g) \<Rightarrow> Inr (x, s\<lparr>np_state := g\<rparr>))"

definition with_faker :: "('r \<Rightarrow> 'a \<times> 'r) \<Rightarrow> ('a, 'g, 'r) gen" where
  "with_faker f s = (case f (faker_state s) of (x, g) \<Rightarrow> Inr (x, s\<lparr>faker_state := g\<rparr>))"

definition np_random_randint :: "('g, 'r) libs \<Rightarrow> int \<Rightarrow> int \<Rightarrow> (int, 'g, 'r) gen" where
  "np_random_randint L lo hi s =
     (if hi \<le> lo then Inl ValueError else with_np (sample_randint L lo hi) s)"

definition np_random_lognormal :: "('g, 'r) libs \<Rightarrow> real \<Rightarrow> real \<Rightarrow> (real, 'g, 'r) gen" where
  "np_random_lognormal L mean sigma s =
     (if sigma < 0 then Inl ValueError else with_np (sample_lognormal L mean sigma) s)"

definition np_random_uniform :: "('g, 'r) libs \<Rightarrow> real \<Rightarrow> real \<Rightarrow> (real, 'g, 'r) gen" where
  "np_random_uniform L lo hi s = with_np (sample_uniform L lo hi) s"

definition bad_probabilities :: "nat \<Rightarrow> real list option \<Rightarrow> bool" where
  "bad_probabilities n p =
     (case p of
        None \<Rightarrow> False
      | Some ps \<Rightarrow> length ps \<noteq> n \<or> (\<exists>x \<in> set ps. x < 0) \<or> sum_list ps \<noteq> 1)"

definition np_random_choice ::
  "('g, 'r) libs \<Rightarrow> 'a list \<Rightarrow> real list option \<Rightarrow> ('a, 'g, 'r) gen" where
  "np_random_choice L a p s =
     (if a = [] \<or> bad_probabilities (length a) p then Inl ValueError
      else with_np (\<lambda>g. case sample_choice L (length a) p g of (k, g') \<Rightarrow> (a ! k, g')) s)"

definition np_random_poisson :: "('g, 'r) libs \<Rightarrow> real \<Rightarrow> (nat, 'g, 'r) gen" where
  "np_random_poisson L lam s =
     (if lam < 0 then Inl ValueError else with_np (sample_poisson L lam) s)"

definition np_random_normal :: "('g, 'r) libs \<Rightarrow> real \<Rightarrow> real \<Rightarrow> (real, 'g, 'r) gen" where
  "np_random_normal L loc scale s =
     (if scale < 0 then Inl ValueError else with_np (sample_normal L loc scale) s)"

definition np_random_random :: "('g, 'r) libs \<Rightarrow> (real, 'g, 'r) gen" where
  "np_random_random L s = with_np (sample_random L) s"

definition fake_name :: "('g, 'r) libs \<Rightarrow> (string, 'g, 'r) gen" where
  "fake_name L s = with_faker (sample_name L) s"

definition fake_ssn :: "('g, 'r) libs \<Rightarrow> (string, 'g, 'r) gen" where
  "fake_ssn L s = with_faker (sample_ssn L) s"

section \<open>Arithmetic of the interpreter\<close>

text \<open>
  True division raises ZeroDivisionError on a zero divisor. \<^verbatim>\<open>round(x, 2)\<close> rounds to
  the nearest multiple of \<open>1/100\<close>, a tie to the even one. \<^verbatim>\<open>sum\<close> adds from the left,
  starting at 0.
\<close>

definition truediv :: "real \<Rightarrow> real \<Rightarrow> py_error + real" where
  "truediv a b = (if b = 0 then Inl ZeroDivisionError else Inr (a / b))"

definition round_half_even :: "real \<Rightarrow> int" where
  "round_half_even y =
     (let f = \<lfloor>y\<rfloor>; d = y - of_int f
      in if d < 1 / 2 then f else if 1 / 2 < d then f + 1 else if even f then f else f + 1)"

definition py_round :: "real \<Rightarrow> nat \<Rightarrow> real" where
  "py_round x ndigits = of_int (round_half_even (x * 10 ^ ndigits)) / 10 ^ ndigits"

definition py_sum :: "real list \<Rightarrow> real" where
  "py_sum xs = foldl (+) 0 xs"

section \<open>The record synthesizer (generate\_data.py, lines 31 to 138)\<close>

text \<open>The weights of the delay draw, lines 49 and 50: sixty decaying weights, normalised.\<close>

definition delay_weights :: "real list" where
  "delay_weights = map (\<lambda>k. exp (- real k * 0.1)) [0..<60]"

definition delay_probs :: "real list" where
  "delay_probs = map (\<lambda>w. w / sum_list delay_weights) delay_weights"

text \<open>
  Lines 78 to 84: the five factors. A conditional expression evaluates its condition
  first, so the division of the third and of the fourth factor is only reached with a
  positive divisor.
\<close>

definition credit_score_factors ::
  "int \<Rightarrow> int \<Rightarrow> real \<Rightarrow> real \<Rightarrow> real \<Rightarrow> real \<Rightarrow> nat \<Rightarrow> py_error + real list" where
  "credit_score_factors credit_history_age delay_from_due_date outstanding_debt annual_income
       monthly_balance monthly_inhand_salary num_delayed_payments =
     bindE (truediv (of_int credit_history_age) 300) (\<lambda>q1.
     bindE (truediv (of_int delay_from_due_date) 60) (\<lambda>q2.
     bindE (if 0 < annual_income
            then bindE (truediv outstanding_debt annual_income) (\<lambda>q. Inr ((1 - q) * 0.2))
            else Inr 0) (\<lambda>f3.
     bindE (if 0 < monthly_inhand_salary
            then bindE (truediv monthly_balance monthly_inhand_salary) (\<lambda>q. Inr (q * 0.15))
            else Inr 0) (\<lambda>f4.
     bindE (truediv (real num_delayed_payments) 10) (\<lambda>q5.
     Inr [q1 * 0.3, (1 - q2) * 0.25, f3, f4, (1 - q5) * 0.1])))))"

text \<open>Lines 78 to 89: the numeric score, the sum of the factors times 100 plus the noise.\<close>

definition credit_score_numeric ::
  "('g, 'r) libs \<Rightarrow> int \<Rightarrow> int \<Rightarrow> real \<Rightarrow> real \<Rightarrow> real \<Rightarrow> real \<Rightarrow> nat \<Rightarrow> (real, 'g, 'r) gen" where
  "credit_score_numeric L credit_history_age delay_from_due_date outstanding_debt annual_income
       monthly_balance monthly_inhand_salary num_delayed_payments =
     bindG (liftE (credit_score_factors credit_history_age delay_from_due_date outstanding_debt
                     annual_income monthly_balance monthly_inhand_salary num_delayed_payments))
       (\<lambda>factors.
     bindG (returnG (py_sum factors * 100)) (\<lambda>score.
     bindG (np_random_normal L 0 10) (\<lambda>noise.
     returnG (score + noise))))"

text \<open>Lines 92 to 101: the category of a numeric score, and the random override.\<close>

definition categorize :: "real \<Rightarrow> string" where
  "categorize x = (if 70 \<le> x then ''Good'' else if 40 \<le> x then ''Standard'' else ''Poor'')"

definition credit_score_label :: "('g, 'r) libs \<Rightarrow> real \<Rightarrow> (string, 'g, 'r) gen" where
  "credit_score_label L credit_score_numeric_value =
     bindG (returnG (categorize credit_score_numeric_value)) (\<lambda>credit_score.
     bindG (np_random_random L) (\<lambda>u.
     if u < 0.1 then np_random_choice L [''Good'', ''Standard'', ''Poor''] None
     else returnG credit_score))"

text \<open>The body of the loop for the index \<open>i\<close>, statement by statement.\<close>

definition generate_record :: "('g, 'r) libs \<Rightarrow> nat \<Rightarrow> (pydict, 'g, 'r) gen" where
  "generate_record L i =
     bindG (np_random_randint L 18 80) (\<lambda>age.
     bindG (np_random_lognormal L 10 1) (\<lambda>annual_income.
     bindG (np_random_choice L [1, 2, 3, 4, 5] (Some [0.3, 0.3, 0.2, 0.15, 0.05]))
       (\<lambda>num_bank_accounts.
     bindG (np_random_choice L [0, 1, 2, 3, 4, 5] (Some [0.1, 0.25, 0.3, 0.2, 0.1, 0.05]))
       (\<lambda>num_credit_cards.
     bindG (np_random_randint L 6 300) (\<lambda>credit_history_age.
     bindG (liftE (truediv annual_income 12)) (\<lambda>income_per_month.
     bindG (np_random_uniform L 0.8 1.2) (\<lambda>u1.
     bindG (returnG (income_per_month * u1)) (\<lambda>monthly_inhand_salary.
     bindG (np_random_uniform L 5 25) (\<lambda>interest_rate.
     bindG (np_random_choice L [0, 1, 2, 3, 4] (Some [0.4, 0.3, 0.2, 0.08, 0.02]))
       (\<lambda>num_of_loans.
     bindG (np_random_choice L (map int [0..<60]) (Some delay_probs)) (\<lambda>delay_from_due_date.
     bindG (np_random_poisson L 2) (\<lambda>num_delayed_payments.
     bindG (np_random_uniform L 0 2) (\<lambda>u2.
     bindG (returnG (annual_income * u2)) (\<lambda>outstanding_debt.
     bindG (np_random_uniform L (- 0.5) 0.5) (\<lambda>u3.
     bindG (returnG (monthly_inhand_salary * u3)) (\<lambda>monthly_balance.
     bindG (np_random_choice L
              [''Engineer'', ''Teacher'', ''Doctor'', ''Lawyer'', ''Manager'', ''Sales'',
               ''Student'', ''Artist'', ''Entrepreneur'', ''Accountant'', ''Nurse'', ''Other'']
              None) (\<lambda>occupation.
     bindG (np_random_choice L [''Good'', ''Standard'', ''Bad''] (Some [0.3, 0.5, 0.2]))
       (\<lambda>credit_mix.
     bindG (np_random_choice L [''Yes'', ''No''] (Some [0.7, 0.3])) (\<lambda>payment_of_min_amount.
     bindG (np_random_choice L
              [''High_spent_Small_value_payments'', ''Low_spent_Large_value_payments'',
               ''High_spent_Medium_value_payments'', ''Low_spent_Medium_value_payments'',
               ''High_spent_Large_value_payments'', ''Low_spent_Small_value_payments'']
              None) (\<lambda>payment_behaviour.
     bindG (credit_score_numeric L credit_history_age delay_from_due_date outstanding_debt
              annual_income monthly_balance monthly_inhand_salary num_delayed_payments)
       (\<lambda>credit_score_numeric_value.
     bindG (credit_score_label L credit_score_numeric_value) (\<lambda>credit_score.
     bindG (np_random_choice L
              [''January'', ''February'', ''March'', ''April'', ''May'', ''June'', ''July'',
               ''August'', ''September'', ''October'', ''November'', ''December'']
              None) (\<lambda>month.
     bindG (fake_name L) (\<lambda>name.
     bindG (fake_ssn L) (\<lambda>ssn.
     bindG (np_random_choice L
              [''Auto Loan'', ''Credit-Builder Loan'', ''Personal Loan'', ''Home Equity Loan'',
               ''Mortgage Loan'', ''Student Loan'', ''Debt Consolidation Loan'', ''Payday Loan'']
              None) (\<lambda>type_of_loan.
     bindG (np_random_uniform L (- 50) 100) (\<lambda>changed_credit_limit.
     bindG (np_random_randint L 0 10) (\<lambda>num_credit_inquiries.
     bindG (np_random_uniform L 0 100) (\<lambda>credit_utilization_ratio.
     bindG (np_random_uniform L 0 0.6) (\<lambda>u4.
     bindG (np_random_uniform L 0 0.3) (\<lambda>u5.
     returnG
       [(''ID'', StrV (record_ID i)),
        (''Customer_ID'', StrV (record_Customer_ID i)),
        (''Month'', StrV month),
        (''Name'', StrV name),
        (''Age'', IntV age),
        (''SSN'', StrV ssn),
        (''Occupation'', StrV occupation),
        (''Annual_Income'', FloatV (py_round annual_income 2)),
        (''Monthly_Inhand_Salary'', FloatV (py_round monthly_inhand_salary 2)),
        (''Num_Bank_Accounts'', IntV num_bank_accounts),
        (''Num_Credit_Card'', IntV num_credit_cards),
        (''Interest_Rate'', FloatV (py_round interest_rate 2)),
        (''Num_of_Loan'', IntV num_of_loans),
        (''Type_of_Loan'', StrV type_of_loan),
        (''Delay_from_due_date'', IntV delay_from_due_date),
        (''Num_of_Delayed_Payment'', IntV (int num_delayed_payments)),
        (''Changed_Credit_Limit'', FloatV changed_credit_limit),
        (''Num_Credit_Inquiries'', IntV num_credit_inquiries),
        (''Credit_Mix'', StrV credit_mix),
        (''Outstanding_Debt'', FloatV (py_round outstanding_debt 2)),
        (''Credit_Utilization_Ratio'', FloatV (py_round credit_utilization_ratio 2)),
        (''Credit_History_Age'', IntV credit_history_age),
        (''Payment_of_Min_Amount'', StrV payment_of_min_amount),
        (''Total_EMI_per_month'', FloatV (py_round (monthly_inhand_salary * u4) 2)),
        (''Amount_invested_monthly'', FloatV (py_round (monthly_inhand_salary * u5) 2)),
        (''Payment_Behaviour'', StrV payment_behaviour),
        (''Monthly_Balance'', FloatV (py_round monthly_balance 2)),
        (''Credit_Score'', StrV credit_score)]
     )))))))))))))))))))))))))))))))"

section \<open>The dataset assembler (generate\_data.py, lines 12 to 16 and 18 to 140)\<close>

text \<open>
  \<^verbatim>\<open>range(n_samples)\<close> is empty for a count that is not positive. The loop appends one
  record per index to \<open>data\<close>, and the frame is built from the list at the end.
\<close>

definition py_range :: "int \<Rightarrow> nat list" where
  "py_range n = [0..<nat n]"

fun generate_rows :: "('g, 'r) libs \<Rightarrow> nat list \<Rightarrow> pydict list \<Rightarrow> (pydict list, 'g, 'r) gen" where
  "generate_rows L [] data = returnG data"
| "generate_rows L (i # idx) data =
     bindG (generate_record L i) (\<lambda>record. generate_rows L idx (data @ [record]))"

definition generate_credit_score_data :: "('g, 'r) libs \<Rightarrow> int \<Rightarrow> (dataframe, 'g, 'r) gen" where
  "generate_credit_score_data L n_samples =
     bindG (generate_rows L (py_range n_samples) []) (\<lambda>data. returnG (DataFrame data))"

text \<open>
  The top of the module, run once when it is imported: the three generators are seeded.
  The script writes the constant 42; the model names it \<open>seed\<close> to speak about any
  fixed value.
\<close>

definition seed_generators :: "('g, 'r) libs \<Rightarrow> nat \<Rightarrow> ('g, 'r) process \<Rightarrow> ('g, 'r) process" where
  "seed_generators L seed s =
     s\<lparr>np_state := seed_np L seed, random_state := seed_py L seed,
       faker_state := seed_py L seed\<rparr>"

definition module_top :: "('g, 'r) libs \<Rightarrow> ('g, 'r) process \<Rightarrow> ('g, 'r) process" where
  "module_top L s = seed_generators L 42 s"

text \<open>The 28 fields of a record, in the order of the dict of lines 104 to 136.\<close>

definition FIELDS :: "string list" where
  "FIELDS =
     [''ID'', ''Customer_ID'', ''Month'', ''Name'', ''Age'', ''SSN'', ''Occupation'',
      ''Annual_Income'', ''Monthly_Inhand_Salary'', ''Num_Bank_Accounts'', ''Num_Credit_Card'',
      ''Interest_Rate'', ''Num_of_Loan'', ''Type_of_Loan'', ''Delay_from_due_date'',
      ''Num_of_Delayed_Payment'', ''Changed_Credit_Limit'', ''Num_Credit_Inquiries'',
      ''Credit_Mix'', ''Outstanding_Debt'', ''Credit_Utilization_Ratio'', ''Credit_History_Age'',
      ''Payment_of_Min_Amount'', ''Total_EMI_per_month'', ''Amount_invested_monthly'',
      ''Payment_Behaviour'', ''Monthly_Balance'', ''Credit_Score'']"

section \<open>The main block of the script (generate\_data.py, lines 142 to 162)\<close>

text \<open>
  \<^verbatim>\<open>os.mkdir\<close>: the entry must not exist yet, its parent must be a directory, and the
  parent must accept a new entry.
\<close>

definition is_dir :: "filesystem \<Rightarrow> path \<Rightarrow> bool" where
  "is_dir f p \<longleftrightarrow> nodes f p = Some Dir"

definition os_mkdir :: "filesystem \<Rightarrow> path \<Rightarrow> py_error + filesystem" where
  "os_mkdir f p =
     (if nodes f p \<noteq> None then Inl FileExistsError
      else case nodes f (butlast p) of
             None \<Rightarrow> Inl FileNotFoundError
           | Some (File d) \<Rightarrow> Inl NotADirectoryError
           | Some Dir \<Rightarrow>
               if butlast p \<in> readonly f then Inl PermissionError
               else Inr (f\<lparr>nodes := (nodes f)(p \<mapsto> Dir)\<rparr>))"

text \<open>
  \<^verbatim>\<open>Path.mkdir(parents=True, exist_ok=True)\<close> as pathlib implements it: try
  \<^verbatim>\<open>os.mkdir\<close>; on FileNotFoundError create the parent the same way and then the
  directory itself, without the \<^verbatim>\<open>parents\<close> flag; any other error of the operating
  system is swallowed when the path is a directory by then, and raised again otherwise.
\<close>

definition mkdir_exist_ok :: "filesystem \<Rightarrow> path \<Rightarrow> py_error + filesystem" where
  "mkdir_exist_ok f p =
     (case os_mkdir f p of
        Inr f' \<Rightarrow> Inr f'
      | Inl e \<Rightarrow>
          if e = FileNotFoundError then Inl e
          else if is_dir f p then Inr f else Inl e)"

function Path_mkdir :: "filesystem \<Rightarrow> path \<Rightarrow> py_error + filesystem" where
  "Path_mkdir f p =
     (case os_mkdir f p of
        Inr f' \<Rightarrow> Inr f'
      | Inl e \<Rightarrow>
          if e = FileNotFoundError then
            (if p = [] then Inl e
             else case Path_mkdir f (butlast p) of
                    Inl e' \<Rightarrow> Inl e'
                  | Inr f' \<Rightarrow> mkdir_exist_ok f' p)
          else if is_dir f p then Inr f else Inl e)"
  by pat_completeness auto
termination
  by (relation "measure (\<lambda>(f, p). length p)") auto

declare Path_mkdir.simps [simp del]

text \<open>
  \<^verbatim>\<open>df.to_csv(path, index=False)\<close> opens the path for writing and writes the header and
  the rows. What is stored is the table itself: the header is its columns, the data rows
  are its rows.
\<close>

definition to_csv :: "dataframe \<Rightarrow> path \<Rightarrow> filesystem \<Rightarrow> py_error + filesystem" where
  "to_csv df p f =
     (case nodes f p of
        Some Dir \<Rightarrow> Inl IsADirectoryError
      | Some (File d) \<Rightarrow>
          if p \<in> readonly f then Inl PermissionError
          else Inr (f\<lparr>nodes := (nodes f)(p \<mapsto> File df)\<rparr>)
      | None \<Rightarrow>
          (case nodes f (butlast p) of
             None \<Rightarrow> Inl FileNotFoundError
           | Some (File d) \<Rightarrow> Inl NotADirectoryError
           | Some Dir \<Rightarrow>
               if butlast p \<in> readonly f then Inl PermissionError
               else Inr (f\<lparr>nodes := (nodes f)(p \<mapsto> File df)\<rparr>)))"

definition with_fs :: "(filesystem \<Rightarrow> py_error + filesystem) \<Rightarrow> (unit, 'g, 'r) gen" where
  "with_fs op s = (case op (fs s) of Inl e \<Rightarrow> Inl e | Inr f \<Rightarrow> Inr ((), s\<lparr>fs := f\<rparr>))"

definition output_dir :: path where
  "output_dir = [''data'', ''raw'']"

definition output_path :: path where
  "output_path = output_dir @ [''credit_score_data.csv'']"

text \<open>
  The main block for a row count \<open>n\<close>: generate, create the directory, write, and read
  the column of the categories for the summary. There is no \<^verbatim>\<open>try\<close> in the block, so
  an exception of any statement ends the script with that exception. The text printed is
  not modelled; the column lookup of line 158 is, since it can raise. The script itself
  runs the block with the constant 10000.
\<close>

definition main_block :: "('g, 'r) libs \<Rightarrow> int \<Rightarrow> (unit, 'g, 'r) gen" where
  "main_block L n =
     bindG (generate_credit_score_data L n) (\<lambda>df.
     bindG (with_fs (\<lambda>f. Path_mkdir f output_dir)) (\<lambda>u1.
     bindG (with_fs (to_csv df output_path)) (\<lambda>u2.
     bindG (liftE (df_getitem df ''Credit_Score'')) (\<lambda>credit_scores.
     returnG ()))))"

definition script :: "('g, 'r) libs \<Rightarrow> (unit, 'g, 'r) gen" where
  "script L s = main_block L 10000 (module_top L s)"

text \<open>Two calls of the generator in one process: the second starts where the first ended.\<close>

definition two_calls :: "('g, 'r) libs \<Rightarrow> int \<Rightarrow> (dataframe \<times> dataframe, 'g, 'r) gen" where
  "two_calls L n =
     bindG (generate_credit_score_data L n) (\<lambda>df1.
     bindG (generate_credit_score_data L n) (\<lambda>df2.
     returnG (df1, df2)))"

section \<open>Input preparation of the web layer (app.py, lines 267 to 319)\<close>

text \<open>
  The submitted form is a dict from field names to values. \<^verbatim>\<open>float\<close> and \<^verbatim>\<open>int\<close>
  are built-ins of the interpreter and parameters of the model: each either converts a
  value or raises. An entry of the input dict is converted by one of them or taken as it
  is.
\<close>

datatype conv = AsFloat | AsInt | AsIs

definition INPUT_FIELDS :: "(string \<times> string \<times> conv) list" where
  "INPUT_FIELDS =
     [(''Age'', ''age'', AsFloat),
      (''Occupation'', ''occupation'', AsIs),
      (''Annual_Income'', ''annual_income'', AsFloat),
      (''Monthly_Inhand_Salary'', ''monthly_salary'', AsFloat),
      (''Num_Bank_Accounts'', ''num_bank_accounts'', AsInt),
      (''Num_Credit_Card'', ''num_credit_cards'', AsInt),
      (''Interest_Rate'', ''interest_rate'', AsFloat),
      (''Num_of_Loan'', ''num_loans'', AsInt),
      (''Delay_from_due_date'', ''delay_from_due_date'', AsInt),
      (''Num_of_Delayed_Payment'', ''num_delayed_payments'', AsInt),
      (''Credit_Utilization_Ratio'', ''credit_utilization_ratio'', AsFloat),
      (''Credit_History_Age'', ''credit_history_age'', AsInt),
      (''Outstanding_Debt'', ''outstanding_debt'', AsFloat),
      (''Total_EMI_per_month'', ''total_emi_per_month'', AsFloat),
      (''Amount_invested_monthly'', ''amount_invested_monthly'', AsFloat),
      (''Monthly_Balance'', ''monthly_balance'', AsFloat),
      (''Credit_Mix'', ''credit_mix'', AsIs),
      (''Payment_of_Min_Amount'', ''payment_of_min_amount'', AsIs),
      (''Payment_Behaviour'', ''payment_behaviour'', AsIs)]"

definition py_getitem :: "pydict \<Rightarrow> string \<Rightarrow> py_error + cell" where
  "py_getitem d k = (case map_of d k of None \<Rightarrow> Inl KeyError | Some v \<Rightarrow> Inr v)"

fun convert ::
  "(cell \<Rightarrow> py_error + real) \<Rightarrow> (cell \<Rightarrow> py_error + int) \<Rightarrow> conv \<Rightarrow> cell \<Rightarrow> py_error + cell" where
  "convert py_float py_int AsFloat v = bindE (py_float v) (\<lambda>x. Inr (FloatV x))"
| "convert py_float py_int AsInt v = bindE (py_int v) (\<lambda>n. Inr (IntV n))"
| "convert py_float py_int AsIs v = Inr v"

fun build_input ::
  "(cell \<Rightarrow> py_error + real) \<Rightarrow> (cell \<Rightarrow> py_error + int) \<Rightarrow> (string \<times> string \<times> conv) list \<Rightarrow>
     pydict \<Rightarrow> py_error + pydict" where
  "build_input py_float py_int [] form_data = Inr []"
| "build_input py_float py_int ((column, field, c) # rest) form_data =
     bindE (py_getitem form_data field) (\<lambda>v.
     bindE (convert py_float py_int c v) (\<lambda>x.
     bindE (build_input py_float py_int rest form_data) (\<lambda>entries.
     Inr ((column, x) # entries))))"

text \<open>
  A loaded preprocessor is an object with a \<^verbatim>\<open>transform\<close> method (a fitted encoder or
  scaler, mapping the values it is given or raising) or an object without one. The frame
  of the request has one row, so it is the dict of its columns, and a column is the list
  of its one value.
\<close>

datatype preprocessor = Transformer "cell list \<Rightarrow> py_error + cell list" | Opaque

definition set_column :: "pydict \<Rightarrow> string \<Rightarrow> cell \<Rightarrow> pydict" where
  "set_column df col v = map (\<lambda>(k, x). if k = col then (k, v) else (k, x)) df"

text \<open>
  Lines 297 to 307, the body of the loop for one column. The assignment of the
  transformed column is inside the \<^verbatim>\<open>try\<close> too: a result of the wrong length makes
  pandas raise ValueError there. Only ValueError is caught.
\<close>

definition encode_column :: "(string \<times> preprocessor) list \<Rightarrow> pydict \<Rightarrow> string \<Rightarrow> py_error + pydict" where
  "encode_column preprocessors input_df col =
     (case (map_of input_df col, map_of preprocessors col) of
        (Some v, Some (Transformer transform)) \<Rightarrow>
          (case bindE (transform [v])
                  (\<lambda>out. case out of [x] \<Rightarrow> Inr (set_column input_df col x)
                          | other \<Rightarrow> Inl ValueError) of
             Inl e \<Rightarrow> if e = ValueError then Inr (set_column input_df col (IntV 0)) else Inl e
           | Inr df \<Rightarrow> Inr df)
      | other \<Rightarrow> Inr input_df)"

fun encode_columns :: "(string \<times> preprocessor) list \<Rightarrow> string list \<Rightarrow> pydict \<Rightarrow> py_error + pydict" where
  "encode_columns preprocessors [] input_df = Inr input_df"
| "encode_columns preprocessors (col # cols) input_df =
     bindE (encode_column preprocessors input_df col) (encode_columns preprocessors cols)"

definition CATEGORICAL :: "string list" where
  "CATEGORICAL = [''Occupation'', ''Credit_Mix'', ''Payment_of_Min_Amount'', ''Payment_Behaviour'']"

text \<open>
  Lines 309 to 313: the scaler transforms the columns of a numeric type, which by then
  include the encoded ones, and its result is assigned back to them.
\<close>

fun is_number :: "cell \<Rightarrow> bool" where
  "is_number (StrV s) = False"
| "is_number (IntV n) = True"
| "is_number (FloatV x) = True"

fun assign_numeric :: "pydict \<Rightarrow> cell list \<Rightarrow> pydict" where
  "assign_numeric [] out = []"
| "assign_numeric ((k, v) # df) out =
     (if is_number v
      then (case out of [] \<Rightarrow> (k, v) # assign_numeric df [] | x # xs \<Rightarrow> (k, x) # assign_numeric df xs)
      else (k, v) # assign_numeric df out)"

definition apply_scaler :: "(string \<times> preprocessor) list \<Rightarrow> pydict \<Rightarrow> py_error + pydict" where
  "apply_scaler preprocessors input_df =
     (case map_of preprocessors ''scaler'' of
        None \<Rightarrow> Inr input_df
      | Some Opaque \<Rightarrow> Inl AttributeError
      | Some (Transformer transform) \<Rightarrow>
          (let numerical = filter is_number (map snd input_df)
           in bindE (transform numerical) (\<lambda>out.
              if length out = length numerical then Inr (assign_numeric input_df out)
              else Inl ValueError)))"

text \<open>
  The whole function. The global \<^verbatim>\<open>preprocessors\<close> is \<^verbatim>\<open>None\<close> until the artifacts
  are loaded; an empty dict is false as well. The outer handler logs and raises again, so
  an error that reaches it is the error of the call.
\<close>

definition prepare_input_data ::
  "(cell \<Rightarrow> py_error + real) \<Rightarrow> (cell \<Rightarrow> py_error + int) \<Rightarrow> (string \<times> preprocessor) list option \<Rightarrow>
     pydict \<Rightarrow> py_error + pydict" where
  "prepare_input_data py_float py_int preprocessors form_data =
     bindE (build_input py_float py_int INPUT_FIELDS form_data) (\<lambda>input_df.
     case preprocessors of
       None \<Rightarrow> Inr input_df
     | Some [] \<Rightarrow> Inr input_df
     | Some (p # ps) \<Rightarrow>
         bindE (encode_columns (p # ps) CATEGORICAL input_df) (apply_scaler (p # ps)))"

section \<open>Notions used in the statements\<close>

text \<open>A statement of the script that returns from every state.\<close>

definition succeeds :: "('a, 'g, 'r) gen \<Rightarrow> bool" where
  "succeeds m \<longleftrightarrow> (\<forall>s. \<exists>x s'. m s = Inr (x, s'))"

text \<open>Two process states with the same state of numpy's and of Faker's generator.\<close>

definition same_generators :: "('g, 'r) process \<Rightarrow> ('g, 'r) process \<Rightarrow> bool" where
  "same_generators s t \<longleftrightarrow> np_state s = np_state t \<and> faker_state s = faker_state t"

text \<open>
  The result of a statement without the state: the exception, or the value. A statement
  is deterministic in the generators when from two states with the same generators it
  gives the same result and again states with the same generators.
\<close>

definition outcome :: "py_error + 'a \<times> 's \<Rightarrow> py_error + 'a" where
  "outcome r = (case r of Inl e \<Rightarrow> Inl e | Inr (x, s) \<Rightarrow> Inr x)"

definition final_state :: "py_error + 'a \<times> 's \<Rightarrow> 's option" where
  "final_state r = (case r of Inl e \<Rightarrow> None | Inr (x, s) \<Rightarrow> Some s)"

definition deterministic :: "('a, 'g, 'r) gen \<Rightarrow> bool" where
  "deterministic m \<longleftrightarrow>
     (\<forall>s t. same_generators s t \<longrightarrow>
        outcome (m s) = outcome (m t) \<and>
        rel_option same_generators (final_state (m s)) (final_state (m t)))"



section \<open>A small generator for the examples\<close>

text \<open>
  A stand-in for the two libraries, used where a statement is run on a concrete input:
  the state is a counter, every draw advances it by one and reads its value off the
  counter. It meets the documented ranges.
\<close>

definition toy_libs :: "(nat, nat) libs" where
  "toy_libs =
     \<lparr>seed_np = (\<lambda>n. n),
      sample_randint = (\<lambda>lo hi g. (lo + int (g mod nat (hi - lo)), Suc g)),
      sample_lognormal = (\<lambda>mean sigma g. (real (Suc g) * 1000, Suc g)),
      sample_uniform = (\<lambda>lo hi g. (lo + (hi - lo) * (real (g mod 4) / 4), Suc g)),
      sample_choice = (\<lambda>n p g. (if even g then 0 else n - 1, Suc g)),
      sample_poisson = (\<lambda>lam g. (g mod 3, Suc g)),
      sample_normal = (\<lambda>loc scale g. (loc + scale * (real (g mod 5) - 2) / 2, Suc g)),
      sample_random = (\<lambda>g. (real (g mod 10) / 10, Suc g)),
      seed_py = (\<lambda>n. n),
      sample_name = (\<lambda>g. (if even g then ''Alice Smith'' else ''Bob Jones'', Suc g)),
      sample_ssn = (\<lambda>g. (if even g then ''000-00-0000'' else ''111-11-1111'', Suc g))\<rparr>"

definition empty_fs :: filesystem where
  "empty_fs = \<lparr>nodes = (\<lambda>p. if p = [] then Some Dir else None), readonly = {}\<rparr>"

definition toy_state :: "nat \<Rightarrow> nat \<Rightarrow> (nat, nat) process" where
  "toy_state g h = \<lparr>np_state = g, random_state = 42, faker_state = h, fs = empty_fs\<rparr>"

text \<open>
  The record that the loop body builds with this generator for the index \<open>i\<close> from the
  state seeded with 42, and the one it builds next, from the state the first one leaves.
\<close>

definition toy_record_a :: "nat \<Rightarrow> pydict" where
  "toy_record_a i =
     [(''ID'', StrV (record_ID i)),
      (''Customer_ID'', StrV (record_Customer_ID i)),
      (''Month'', StrV ''January''),
      (''Name'', StrV ''Alice Smith''),
      (''Age'', IntV 60),
      (''SSN'', StrV ''111-11-1111''),
      (''Occupation'', StrV ''Engineer''),
      (''Annual_Income'', FloatV 44000),
      (''Monthly_Inhand_Salary'', FloatV (403333 / 100)),
      (''Num_Bank_Accounts'', IntV 1),
      (''Num_Credit_Card'', IntV 5),
      (''Interest_Rate'', FloatV 5),
      (''Num_of_Loan'', IntV 4),
      (''Type_of_Loan'', StrV ''Payday Loan''),
      (''Delay_from_due_date'', IntV 0),
      (''Num_of_Delayed_Payment'', IntV 0),
      (''Changed_Credit_Limit'', FloatV 25),
      (''Num_Credit_Inquiries'', IntV 3),
      (''Credit_Mix'', StrV ''Bad''),
      (''Outstanding_Debt'', FloatV 0),
      (''Credit_Utilization_Ratio'', FloatV 0),
      (''Credit_History_Age'', IntV 52),
      (''Payment_of_Min_Amount'', StrV ''Yes''),
      (''Total_EMI_per_month'', FloatV 605),
      (''Amount_invested_monthly'', FloatV 605),
      (''Payment_Behaviour'', StrV ''Low_spent_Small_value_payments''),
      (''Monthly_Balance'', FloatV (- (100833 / 100))),
      (''Credit_Score'', StrV ''Standard'')]"

definition toy_record_b :: "nat \<Rightarrow> pydict" where
  "toy_record_b i =
     [(''ID'', StrV (record_ID i)),
      (''Customer_ID'', StrV (record_Customer_ID i)),
      (''Month'', StrV ''December''),
      (''Name'', StrV ''Alice Smith''),
      (''Age'', IntV 23),
      (''SSN'', StrV ''111-11-1111''),
      (''Occupation'', StrV ''Other''),
      (''Annual_Income'', FloatV 69000),
      (''Monthly_Inhand_Salary'', FloatV 4600),
      (''Num_Bank_Accounts'', IntV 5),
      (''Num_Credit_Card'', IntV 0),
      (''Interest_Rate'', FloatV 10),
      (''Num_of_Loan'', IntV 0),
      (''Type_of_Loan'', StrV ''Auto Loan''),
      (''Delay_from_due_date'', IntV 59),
      (''Num_of_Delayed_Payment'', IntV 1),
      (''Changed_Credit_Limit'', FloatV (125 / 2)),
      (''Num_Credit_Inquiries'', IntV 8),
      (''Credit_Mix'', StrV ''Good''),
      (''Outstanding_Debt'', FloatV 34500),
      (''Credit_Utilization_Ratio'', FloatV 25),
      (''Credit_History_Age'', IntV 77),
      (''Payment_of_Min_Amount'', StrV ''No''),
      (''Total_EMI_per_month'', FloatV 1380),
      (''Amount_invested_monthly'', FloatV 1035),
      (''Payment_Behaviour'', StrV ''High_spent_Small_value_payments''),
      (''Monthly_Balance'', FloatV 0),
      (''Credit_Score'', StrV ''Poor'')]"

text \<open>
  The cell of a frame at a row and a column, \<^verbatim>\<open>df[c][k]\<close>; \<open>None\<close> when there is no
  such column or row (or the cell is NaN).
\<close>

definition df_at :: "dataframe \<Rightarrow> nat \<Rightarrow> string \<Rightarrow> cell option" where
  "df_at df k c =
     (case df_getitem df c of
        Inl e \<Rightarrow> None
      | Inr col \<Rightarrow> if k < length col then col ! k else None)"

lemma digit_val_digit_char: "d < 16 \<Longrightarrow> digit_val (digit_char d) = d"
proof -
  assume "d < 16"
  then have "d = 0 \<or> d = 1 \<or> d = 2 \<or> d = 3 \<or> d = 4 \<or> d = 5 \<or> d = 6 \<or> d = 7 \<or> d = 8
      \<or> d = 9 \<or> d = 10 \<or> d = 11 \<or> d = 12 \<or> d = 13 \<or> d = 14 \<or> d = 15"
    by arith
  then show ?thesis
    by (elim disjE) (simp_all add: digit_val_def digit_char_def)
qed

lemma val_of_snoc: "val_of b (s @ [c]) = val_of b s * b + digit_val c"
  by (simp add: val_of_def)

lemma val_of_digits_of:
  "2 \<le> b \<Longrightarrow> b \<le> 16 \<Longrightarrow> val_of b (digits_of b n) = n"
proof (induction b n rule: digits_of.induct)
  case (1 b n)
  show ?case
  proof (cases "b \<le> n")
    case True
    have "n mod b < 16"
      using "1.prems" by (meson less_le_trans mod_less_divisor less_le_trans zero_less_numeral
          order.strict_trans2 pos2)
    then show ?thesis
      using True "1.prems" "1.IH"
      by (subst digits_of.simps) (simp add: val_of_snoc digit_val_digit_char)
  next
    case False
    then have "n < 16" using "1.prems" by simp
    then show ?thesis
      using False by (subst digits_of.simps) (simp add: val_of_def digit_val_digit_char)
  qed
qed

lemma val_of_zeros: "val_of b (replicate k (CHR ''0'') @ s) = val_of b s"
proof (induction k)
  case 0
  show ?case by simp
next
  case (Suc k)
  have z: "digit_val (CHR ''0'') = 0"
    by (simp add: digit_val_def)
  have "val_of b (CHR ''0'' # t) = val_of b t" for t
    by (simp add: val_of_def z)
  then show ?case using Suc by simp
qed

lemma val_of_format_06x: "val_of 16 (format_06x n) = n"
  by (simp add: format_06x_def zero_pad_def val_of_zeros val_of_digits_of)

lemma val_of_format_08d: "val_of 10 (format_08d n) = n"
  by (simp add: format_08d_def zero_pad_def val_of_zeros val_of_digits_of)

lemma record_ID_inj: "record_ID i = record_ID j \<Longrightarrow> i = j"
proof -
  assume "record_ID i = record_ID j"
  then have "format_06x (i + 1) = format_06x (j + 1)"
    by (simp add: record_ID_def)
  then have "val_of 16 (format_06x (i + 1)) = val_of 16 (format_06x (j + 1))"
    by simp
  then show "i = j"
    by (simp add: val_of_format_06x)
qed

lemma record_Customer_ID_inj: "record_Customer_ID i = record_Customer_ID j \<Longrightarrow> i = j"
proof -
  assume "record_Customer_ID i = record_Customer_ID j"
  then have "format_08d (i + 1) = format_08d (j + 1)"
    by (simp add: record_Customer_ID_def)
  then have "val_of 10 (format_08d (i + 1)) = val_of 10 (format_08d (j + 1))"
    by simp
  then show "i = j"
    by (simp add: val_of_format_08d)
qed

section \<open>Sequencing and the primitive draws\<close>

lemma bindG_InrE:
  assumes "bindG m f s = Inr r"
  obtains x s' where "m s = Inr (x, s')" and "f x s' = Inr r"
  using assms by (auto simp: bindG_def split: sum.splits)

lemma bindG_Inr: "m s = Inr (x, s') \<Longrightarrow> bindG m f s = f x s'"
  by (simp add: bindG_def)

lemma bindG_Inl: "m s = Inl e \<Longrightarrow> bindG m f s = Inl e"
  by (simp add: bindG_def)

lemma returnG_eq [simp]: "returnG x s = Inr (y, s') \<longleftrightarrow> y = x \<and> s' = s"
  by (auto simp: returnG_def)

lemma liftE_Inr [simp]: "liftE (Inr x) s = Inr (x, s)"
  by (simp add: liftE_def)

lemma liftE_eq: "liftE r s = Inr (y, s') \<longleftrightarrow> r = Inr y \<and> s' = s"
  by (auto simp: liftE_def split: sum.splits)

lemma bindE_Inr [simp]: "bindE (Inr x) f = f x"
  by (simp add: bindE_def)

lemma bindE_Inl [simp]: "bindE (Inl e) f = Inl e"
  by (simp add: bindE_def)

lemma with_np_eq:
  "with_np f s = Inr (x, s') \<longleftrightarrow>
     x = fst (f (np_state s)) \<and> s' = s\<lparr>np_state := snd (f (np_state s))\<rparr>"
  by (auto simp: with_np_def split: prod.splits)

lemma succeeds_bindG: "succeeds m \<Longrightarrow> (\<And>x. succeeds (f x)) \<Longrightarrow> succeeds (bindG m f)"
  unfolding succeeds_def
proof
  fix s
  assume m: "\<forall>s. \<exists>x s'. m s = Inr (x, s')" and f: "\<And>x. \<forall>s. \<exists>y s'. f x s = Inr (y, s')"
  from m obtain x s1 where 1: "m s = Inr (x, s1)" by blast
  from f obtain y s2 where 2: "f x s1 = Inr (y, s2)" by blast
  from 1 2 show "\<exists>y s'. bindG m f s = Inr (y, s')"
    by (simp add: bindG_Inr)
qed

lemma succeeds_returnG: "succeeds (returnG x)"
  by (simp add: succeeds_def returnG_def)

lemma succeeds_liftE: "succeeds (liftE (Inr x))"
  by (simp add: succeeds_def)

lemma succeeds_with_np: "succeeds (with_np f)"
  by (auto simp: succeeds_def with_np_def split: prod.splits)

lemma succeeds_with_faker: "succeeds (with_faker f)"
  by (auto simp: succeeds_def with_faker_def split: prod.splits)

lemma succeeds_randint: "lo < hi \<Longrightarrow> succeeds (np_random_randint L lo hi)"
  using succeeds_with_np [of "sample_randint L lo hi"]
  by (simp add: succeeds_def np_random_randint_def)

lemma succeeds_lognormal: "0 \<le> sigma \<Longrightarrow> succeeds (np_random_lognormal L mean sigma)"
  using succeeds_with_np [of "sample_lognormal L mean sigma"]
  by (simp add: succeeds_def np_random_lognormal_def)

lemma succeeds_uniform: "succeeds (np_random_uniform L lo hi)"
  using succeeds_with_np [of "sample_uniform L lo hi"]
  by (simp add: succeeds_def np_random_uniform_def)

lemma succeeds_choice:
  "a \<noteq> [] \<Longrightarrow> \<not> bad_probabilities (length a) p \<Longrightarrow> succeeds (np_random_choice L a p)"
  using succeeds_with_np [of "\<lambda>g. case sample_choice L (length a) p g of (k, g') \<Rightarrow> (a ! k, g')"]
  by (simp add: succeeds_def np_random_choice_def)

lemma succeeds_poisson: "0 \<le> lam \<Longrightarrow> succeeds (np_random_poisson L lam)"
  using succeeds_with_np [of "sample_poisson L lam"]
  by (simp add: succeeds_def np_random_poisson_def)

lemma succeeds_normal: "0 \<le> scale \<Longrightarrow> succeeds (np_random_normal L loc scale)"
  using succeeds_with_np [of "sample_normal L loc scale"]
  by (simp add: succeeds_def np_random_normal_def)

lemma succeeds_random: "succeeds (np_random_random L)"
  using succeeds_with_np [of "sample_random L"]
  by (simp add: succeeds_def np_random_random_def)

lemma succeeds_fake_name: "succeeds (fake_name L)"
  using succeeds_with_faker [of "sample_name L"]
  by (simp add: succeeds_def fake_name_def)

lemma succeeds_fake_ssn: "succeeds (fake_ssn L)"
  using succeeds_with_faker [of "sample_ssn L"]
  by (simp add: succeeds_def fake_ssn_def)

lemma succeeds_if: "succeeds m \<Longrightarrow> succeeds m' \<Longrightarrow> succeeds (if b then m else m')"
  by simp

section \<open>The score\<close>

lemma credit_score_factors_value:
  "credit_score_factors a d debt income bal sal n =
     Inr [of_int a / 300 * 0.3, (1 - of_int d / 60) * 0.25,
          (if 0 < income then (1 - debt / income) * 0.2 else 0),
          (if 0 < sal then bal / sal * 0.15 else 0),
          (1 - real n / 10) * 0.1]"
  by (simp add: credit_score_factors_def truediv_def)

lemma delay_weights_sum_pos: "0 < sum_list delay_weights"
proof -
  have "sum_list delay_weights = (\<Sum>k\<in>{0..<60::nat}. exp (- real k * 0.1))"
    by (simp add: delay_weights_def interv_sum_list_conv_sum_set_nat)
  also have "0 < \<dots>"
    by (rule sum_pos) auto
  finally show ?thesis .
qed

lemma delay_probs_ok: "\<not> bad_probabilities 60 (Some delay_probs)"
proof -
  have len: "length delay_probs = 60"
    by (simp add: delay_probs_def delay_weights_def)
  have nonneg: "0 \<le> x" if "x \<in> set delay_probs" for x
  proof -
    from that obtain w where "w \<in> set delay_weights" and "x = w / sum_list delay_weights"
      by (auto simp: delay_probs_def)
    moreover from this have "0 \<le> w" by (auto simp: delay_weights_def)
    ultimately show ?thesis using delay_weights_sum_pos by simp
  qed
  have "sum_list delay_probs = sum_list delay_weights / sum_list delay_weights"
    by (simp add: delay_probs_def divide_inverse sum_list_mult_const)
  then have "sum_list delay_probs = 1"
    using delay_weights_sum_pos by simp
  with len nonneg show ?thesis
    by (fastforce simp: bad_probabilities_def not_less)
qed

lemma succeeds_credit_score_numeric:
  "succeeds (credit_score_numeric L a d debt income bal sal n)"
  unfolding credit_score_numeric_def credit_score_factors_value
  by (intro succeeds_bindG succeeds_liftE succeeds_returnG succeeds_normal) simp

lemma succeeds_credit_score_label: "succeeds (credit_score_label L x)"
  unfolding credit_score_label_def
  by (intro succeeds_bindG succeeds_returnG succeeds_random succeeds_if succeeds_choice)
     (simp_all add: bad_probabilities_def)

lemma succeeds_generate_record: "succeeds (generate_record L i)"
  unfolding generate_record_def
  apply (intro succeeds_bindG succeeds_returnG succeeds_randint succeeds_lognormal
      succeeds_uniform succeeds_choice succeeds_poisson succeeds_fake_name succeeds_fake_ssn
      succeeds_credit_score_numeric succeeds_credit_score_label)
  apply (simp_all add: delay_probs_ok truediv_def succeeds_liftE)
  apply (simp_all add: bad_probabilities_def)
  done

lemma succeeds_generate_rows: "succeeds (generate_rows L idx data)"
proof (induction idx arbitrary: data)
  case Nil
  show ?case by (simp add: succeeds_returnG)
next
  case (Cons i idx)
  show ?case
    by (simp add: succeeds_bindG succeeds_generate_record Cons.IH)
qed

lemma succeeds_generate_credit_score_data: "succeeds (generate_credit_score_data L n)"
  unfolding generate_credit_score_data_def
  by (intro succeeds_bindG succeeds_generate_rows succeeds_returnG)



section \<open>Facts about a generated record\<close>

lemma randint_range:
  "libs_ok L \<Longrightarrow> np_random_randint L lo hi s = Inr (x, s') \<Longrightarrow> lo \<le> x \<and> x < hi"
  by (auto simp: np_random_randint_def with_np_eq libs_ok_def split: if_splits)

lemma uniform_range:
  "libs_ok L \<Longrightarrow> np_random_uniform L lo hi s = Inr (x, s') \<Longrightarrow> lo \<le> hi \<longrightarrow> lo \<le> x \<and> x \<le> hi"
  by (auto simp: np_random_uniform_def with_np_eq libs_ok_def)

lemma choice_mem:
  "libs_ok L \<Longrightarrow> np_random_choice L a p s = Inr (x, s') \<Longrightarrow> x \<in> set a"
proof -
  assume ok: "libs_ok L" and c: "np_random_choice L a p s = Inr (x, s')"
  from c have ne: "a \<noteq> []"
    by (auto simp: np_random_choice_def split: if_splits)
  with c have "x = a ! fst (sample_choice L (length a) p (np_state s))"
    by (auto simp: np_random_choice_def with_np_eq split: if_splits prod.splits)
  moreover from ok ne have "fst (sample_choice L (length a) p (np_state s)) < length a"
    by (simp add: libs_ok_def)
  ultimately show ?thesis by simp
qed

lemma round_half_even_bounds: "\<lfloor>y\<rfloor> \<le> round_half_even y \<and> round_half_even y \<le> \<lceil>y\<rceil>"
  unfolding round_half_even_def Let_def
  by (auto simp: ceiling_altdef)

lemma py_round_bounds:
  assumes "of_int lo \<le> x" and "x \<le> of_int hi"
  shows "of_int lo \<le> py_round x 2 \<and> py_round x 2 \<le> of_int hi"
proof -
  let ?y = "x * 10 ^ 2"
  have lo: "of_int (lo * 100) \<le> ?y" using assms(1) by simp
  have hi: "?y \<le> of_int (hi * 100)" using assms(2) by simp
  have "lo * 100 \<le> \<lfloor>?y\<rfloor>" using lo by (simp only: le_floor_iff)
  moreover have "\<lceil>?y\<rceil> \<le> hi * 100" using hi by (simp only: ceiling_le_iff)
  ultimately have "lo * 100 \<le> round_half_even ?y \<and> round_half_even ?y \<le> hi * 100"
    using round_half_even_bounds [of ?y] by linarith
  then have "of_int (lo * 100) \<le> (of_int (round_half_even ?y) :: real)
      \<and> (of_int (round_half_even ?y) :: real) \<le> of_int (hi * 100)"
    by (simp only: of_int_le_iff)
  then show ?thesis
    unfolding py_round_def by (simp add: field_simps)
qed

lemma interest_rate_rounded: "5 \<le> x \<and> x \<le> 25 \<Longrightarrow> 5 \<le> py_round x 2 \<and> py_round x 2 \<le> 25"
  using py_round_bounds [of 5 x 25] by simp

lemma delay_values: "x \<in> set (map int [0..<60]) \<Longrightarrow> 0 \<le> x \<and> x \<le> 59"
  by auto

lemma label_values:
  assumes ok: "libs_ok L" and l: "credit_score_label L x s = Inr (c, s')"
  shows "c \<in> {''Good'', ''Standard'', ''Poor''}"
  using l unfolding credit_score_label_def
  by (elim bindG_InrE) (auto split: if_splits dest: choice_mem [OF ok] simp: categorize_def)

lemma record_shape:
  assumes g: "generate_record L i s = Inr (r, s')"
  shows "map fst r = FIELDS \<and>
     map_of r ''ID'' = Some (StrV (record_ID i)) \<and>
     map_of r ''Customer_ID'' = Some (StrV (record_Customer_ID i))"
  using g unfolding generate_record_def
  apply (elim bindG_InrE)
  apply (simp add: FIELDS_def)
  done

lemma record_ranges:
  assumes ok: "libs_ok L" and g: "generate_record L i s = Inr (r, s')"
  shows "\<exists>age banks cards rate delay history.
     map_of r ''Age'' = Some (IntV age) \<and> 18 \<le> age \<and> age < 80 \<and>
     map_of r ''Num_Bank_Accounts'' = Some (IntV banks) \<and> banks \<in> {1, 2, 3, 4, 5} \<and>
     map_of r ''Num_Credit_Card'' = Some (IntV cards) \<and> cards \<in> {0, 1, 2, 3, 4, 5} \<and>
     map_of r ''Interest_Rate'' = Some (FloatV rate) \<and> 5 \<le> rate \<and> rate \<le> 25 \<and>
     map_of r ''Delay_from_due_date'' = Some (IntV delay) \<and> 0 \<le> delay \<and> delay \<le> 59 \<and>
     map_of r ''Credit_History_Age'' = Some (IntV history) \<and> 6 \<le> history \<and> history < 300"
  using g unfolding generate_record_def
  apply (elim bindG_InrE)
  apply (drule randint_range [OF ok, of 18 80])
  apply (drule randint_range [OF ok, of 6 300])
  apply (drule choice_mem [OF ok, of "[1, 2, 3, 4, 5]"])
  apply (drule choice_mem [OF ok, of "[0, 1, 2, 3, 4, 5]"])
  apply (drule choice_mem [OF ok, of "map int [0..<60]"])
  apply (drule delay_values)
  apply (drule uniform_range [OF ok, of 5 25])
  apply (simp add: interest_rate_rounded)
  done

lemma record_label:
  assumes ok: "libs_ok L" and g: "generate_record L i s = Inr (r, s')"
  shows "\<exists>c. map_of r ''Credit_Score'' = Some (StrV c) \<and> c \<in> {''Good'', ''Standard'', ''Poor''}"
  using g unfolding generate_record_def
  apply (elim bindG_InrE)
  apply (drule label_values [OF ok])
  apply simp
  done

section \<open>The example generator\<close>

lemma libs_ok_toy: "libs_ok toy_libs"
proof -
  have r: "lo \<le> lo + int (g mod nat (hi - lo)) \<and> lo + int (g mod nat (hi - lo)) < hi"
    if "lo < hi" for lo hi :: int and g :: nat
  proof -
    have "g mod nat (hi - lo) < nat (hi - lo)" using that by simp
    then show ?thesis by linarith
  qed
  have u: "lo \<le> lo + (hi - lo) * (real (g mod 4) / 4) \<and> lo + (hi - lo) * (real (g mod 4) / 4) \<le> hi"
    if "lo \<le> hi" for lo hi :: real and g :: nat
  proof -
    have "real (g mod 4) / 4 \<le> 1" by simp
    moreover have "0 \<le> real (g mod 4) / 4" by simp
    ultimately have "0 \<le> (hi - lo) * (real (g mod 4) / 4)
        \<and> (hi - lo) * (real (g mod 4) / 4) \<le> (hi - lo) * 1"
      using that by (meson diff_ge_0_iff_ge mult_left_mono mult_nonneg_nonneg)
    then show ?thesis by simp
  qed
  have c: "real (g mod 10) / 10 < 1" for g :: nat
  proof -
    have "g mod 10 < 10" by simp
    then show ?thesis by simp
  qed
  show ?thesis
    unfolding libs_ok_def toy_libs_def using r u c by simp
qed

lemmas eval_simps = bindG_def returnG_def liftE_def bindE_def with_np_def with_faker_def
  np_random_randint_def np_random_lognormal_def np_random_uniform_def np_random_choice_def
  np_random_poisson_def np_random_normal_def np_random_random_def fake_name_def fake_ssn_def
  truediv_def py_sum_def categorize_def credit_score_factors_value credit_score_numeric_def
  credit_score_label_def bad_probabilities_def py_round_def round_half_even_def

lemmas delay_probs_facts = delay_probs_ok [unfolded bad_probabilities_def, simplified]

lemma toy_record_a_run:
  "generate_record toy_libs i (toy_state 42 42) = Inr (toy_record_a i, toy_state 67 44)"
  by (simp add: generate_record_def toy_state_def toy_libs_def eval_simps delay_probs_facts
      toy_record_a_def)

lemma toy_record_b_run:
  "generate_record toy_libs i (toy_state 67 44) = Inr (toy_record_b i, toy_state 92 46)"
  by (simp add: generate_record_def toy_state_def toy_libs_def eval_simps delay_probs_facts
      toy_record_b_def)

section \<open>Facts about the generated frame\<close>

lemma generate_rows_result:
  "generate_rows L idx data s = Inr (out, s') \<Longrightarrow>
   \<exists>recs. out = data @ recs \<and> length recs = length idx \<and>
     (\<forall>k<length idx. \<exists>t t'. generate_record L (idx ! k) t = Inr (recs ! k, t'))"
proof (induction idx arbitrary: data s)
  case Nil
  then show ?case by simp
next
  case (Cons i idx)
  from Cons.prems obtain r s1 where
    r: "generate_record L i s = Inr (r, s1)" and
    rest: "generate_rows L idx (data @ [r]) s1 = Inr (out, s')"
    by (auto elim: bindG_InrE)
  from Cons.IH [OF rest] obtain recs where
    out: "out = (data @ [r]) @ recs" and len: "length recs = length idx" and
    each: "\<forall>k<length idx. \<exists>t t'. generate_record L (idx ! k) t = Inr (recs ! k, t')"
    by blast
  have "\<exists>t t'. generate_record L ((i # idx) ! k) t = Inr ((r # recs) ! k, t')"
    if "k < length (i # idx)" for k
  proof (cases k)
    case 0
    with r show ?thesis by auto
  next
    case (Suc m)
    with that each show ?thesis by simp
  qed
  with out len show ?case
    by (intro exI [of _ "r # recs"]) simp
qed

lemma add_keys_same: "distinct K \<Longrightarrow> map fst d = K \<Longrightarrow> add_keys K d = K"
  by (simp add: add_keys_def)

lemma foldl_add_keys_same:
  "distinct K \<Longrightarrow> \<forall>d\<in>set data. map fst d = K \<Longrightarrow> foldl add_keys K data = K"
  by (induction data) (simp_all add: add_keys_same)

lemma add_keys_first: "distinct (map fst d) \<Longrightarrow> add_keys [] d = map fst d"
  by (simp add: add_keys_def)

lemma columns_DataFrame:
  assumes "distinct K" and "\<forall>d\<in>set data. map fst d = K"
  shows "columns (DataFrame data) = (if data = [] then [] else K)"
proof (cases data)
  case Nil
  then show ?thesis by (simp add: DataFrame_def)
next
  case (Cons d ds)
  with assms have "add_keys [] d = K" by (simp add: add_keys_first)
  with Cons assms show ?thesis
    by (simp add: DataFrame_def foldl_add_keys_same)
qed

lemma rows_DataFrame:
  "rows (DataFrame data) = map (\<lambda>d. map (map_of d) (columns (DataFrame data))) data"
  by (simp add: DataFrame_def Let_def)

lemma index_of_mem: "c \<in> set xs \<Longrightarrow> \<exists>j. index_of xs c = Some j \<and> j < length xs \<and> xs ! j = c"
  by (induction xs) auto

lemma df_at_DataFrame:
  assumes "columns (DataFrame data) = K" and "c \<in> set K" and "k < length data"
  shows "df_at (DataFrame data) k c = map_of (data ! k) c"
proof -
  from index_of_mem [OF assms(2)] obtain j where
    j: "index_of K c = Some j" "j < length K" "K ! j = c" by blast
  with assms show ?thesis
    by (simp add: df_at_def df_getitem_def rows_DataFrame)
qed

lemma distinct_FIELDS: "distinct FIELDS"
  by (simp add: FIELDS_def)

lemma generate_frame:
  assumes "generate_credit_score_data L n s = Inr (df, s')"
  shows "\<exists>data. df = DataFrame data \<and> length data = nat n \<and>
     (\<forall>k<nat n. \<exists>t t'. generate_record L k t = Inr (data ! k, t'))"
proof -
  from assms obtain data s1 where
    rows: "generate_rows L (py_range n) [] s = Inr (data, s1)" and df: "df = DataFrame data"
    unfolding generate_credit_score_data_def by (auto elim: bindG_InrE)
  from generate_rows_result [OF rows] obtain recs where
    "data = recs" and "length recs = length (py_range n)" and
    "\<forall>k<length (py_range n). \<exists>t t'. generate_record L (py_range n ! k) t = Inr (recs ! k, t')"
    by auto
  with df show ?thesis
    by (auto simp: py_range_def)
qed

lemma generate_frame_columns:
  assumes "generate_credit_score_data L n s = Inr (df, s')"
  shows "columns df = (if 0 < n then FIELDS else []) \<and> length (rows df) = nat n \<and>
     (\<forall>row\<in>set (rows df). length row = length (columns df))"
proof -
  from generate_frame [OF assms] obtain data where
    df: "df = DataFrame data" and len: "length data = nat n" and
    each: "\<forall>k<nat n. \<exists>t t'. generate_record L k t = Inr (data ! k, t')"
    by blast
  have keys: "\<forall>d\<in>set data. map fst d = FIELDS"
  proof
    fix d assume "d \<in> set data"
    then obtain k where "k < length data" and "data ! k = d"
      by (auto simp: in_set_conv_nth)
    with each len obtain t t' where "generate_record L k t = Inr (d, t')" by auto
    from record_shape [OF this] show "map fst d = FIELDS" by simp
  qed
  have "data = [] \<longleftrightarrow> \<not> 0 < n" using len by auto
  with columns_DataFrame [OF distinct_FIELDS keys] df
  have c: "columns df = (if 0 < n then FIELDS else [])" by simp
  from df len have r: "length (rows df) = nat n"
    by (simp add: rows_DataFrame)
  from df have "\<forall>row\<in>set (rows df). length row = length (columns df)"
    by (auto simp: rows_DataFrame)
  with c r show ?thesis by simp
qed

lemma generate_frame_row:
  assumes "generate_credit_score_data L n s = Inr (df, s')" and "k < nat n"
  shows "\<exists>r t t'. generate_record L k t = Inr (r, t') \<and>
     (\<forall>c\<in>set FIELDS. df_at df k c = map_of r c)"
proof -
  from generate_frame [OF assms(1)] obtain data where
    df: "df = DataFrame data" and len: "length data = nat n" and
    each: "\<forall>k<nat n. \<exists>t t'. generate_record L k t = Inr (data ! k, t')"
    by blast
  from assms(2) have "0 < n" by simp
  with generate_frame_columns [OF assms(1)] df have cols: "columns (DataFrame data) = FIELDS"
    by simp
  have "\<forall>c\<in>set FIELDS. df_at df k c = map_of (data ! k) c"
    using df_at_DataFrame [OF cols] assms(2) len df by simp
  with each assms(2) show ?thesis by blast
qed


lemma toy_run_1:
  "generate_credit_score_data toy_libs 1 (toy_state 42 42) =
     Inr (DataFrame [toy_record_a 0], toy_state 67 44)"
  by (simp add: generate_credit_score_data_def py_range_def bindG_def returnG_def
      toy_record_a_run)

lemma toy_run_2:
  "generate_credit_score_data toy_libs 2 (toy_state 42 42) =
     Inr (DataFrame [toy_record_a 0, toy_record_b 1], toy_state 92 46)"
  by (simp add: generate_credit_score_data_def py_range_def upt_rec bindG_def returnG_def
      toy_record_a_run toy_record_b_run)

lemma toy_run_0:
  "generate_credit_score_data L n (s :: ('g, 'r) process) = Inr (DataFrame [], s)" if "n \<le> 0"
  using that by (simp add: generate_credit_score_data_def py_range_def bindG_def returnG_def)

section \<open>Claims about the numeric score and about totality\<close>


text \<open>
  Claim C6. Record generation never raises: from every state, for every index and every
  generator, the body of the loop returns a record, and so does the whole loop; every
  argument that the script passes to a draw is accepted. The two guarded divisions are
  not performed when the divisor is not strictly positive: the factor is 0 then, also at
  the divisor 0, where the division itself would raise ZeroDivisionError.
\<close>

theorem generate_record_never_raises:
  "succeeds (generate_record L i) \<and>
   succeeds (generate_credit_score_data L n_samples) \<and>
   truediv debt 0 = Inl ZeroDivisionError \<and>
   (\<exists>factors. credit_score_factors a d debt income bal sal n = Inr factors \<and>
      length factors = 5 \<and>
      (income \<le> 0 \<longrightarrow> factors ! 2 = 0) \<and>
      (sal \<le> 0 \<longrightarrow> factors ! 3 = 0))"
proof -
  have "\<exists>factors. credit_score_factors a d debt income bal sal n = Inr factors \<and>
      length factors = 5 \<and>
      (income \<le> 0 \<longrightarrow> factors ! 2 = 0) \<and>
      (sal \<le> 0 \<longrightarrow> factors ! 3 = 0)"
    unfolding credit_score_factors_value
    by (rule exI [of _ "[of_int a / 300 * 0.3, (1 - of_int d / 60) * 0.25,
          (if 0 < income then (1 - debt / income) * 0.2 else 0),
          (if 0 < sal then bal / sal * 0.15 else 0),
          (1 - real n / 10) * 0.1]"]) simp
  then show ?thesis
    by (simp add: succeeds_generate_record succeeds_generate_credit_score_data truediv_def)
qed

theorem generate_record_never_raises_witness:
  "(\<exists>r s'. generate_record toy_libs 0 (toy_state 42 42) = Inr (r, s')) \<and>
   (\<exists>df s'. generate_credit_score_data toy_libs 3 (toy_state 42 42) = Inr (df, s')) \<and>
   truediv 1000 0 = Inl ZeroDivisionError \<and>
   (0::real) \<le> 0 \<and>
   credit_score_factors 120 6 1000 0 50 0 2 = Inr [3 / 25, 9 / 40, 0, 0, 2 / 25]"
proof -
  note t = generate_record_never_raises [of toy_libs 0 3 1000 120 6 0 50 0 2]
  from t have "succeeds (generate_record toy_libs 0)" by simp
  then have 1: "\<exists>r s'. generate_record toy_libs 0 (toy_state 42 42) = Inr (r, s')"
    unfolding succeeds_def by blast
  from t have "succeeds (generate_credit_score_data toy_libs 3)" by simp
  then have 2: "\<exists>df s'. generate_credit_score_data toy_libs 3 (toy_state 42 42) = Inr (df, s')"
    unfolding succeeds_def by blast
  from t have 3: "truediv 1000 0 = Inl ZeroDivisionError" by simp
  from t obtain factors where
    "credit_score_factors 120 6 1000 0 50 0 2 = Inr factors" and "factors ! 2 = 0" and "factors ! 3 = 0"
    by auto
  then have 4: "credit_score_factors 120 6 1000 0 50 0 2 = Inr [3 / 25, 9 / 40, 0, 0, 2 / 25]"
    by (simp add: credit_score_factors_value)
  from 1 2 3 4 show ?thesis by simp
qed

section \<open>Claims about the generated table\<close>

text \<open>
  Claim C1, as the specification states it: for every \<open>N \<ge> 0\<close> the generator returns a
  table with exactly \<open>N\<close> rows and the fixed set of 28 columns, and for \<open>N = 0\<close> the
  result is header-only. This fails at \<open>N = 0\<close>: the frame is built from the list of
  records alone, so with no record it has no column either, and what would be written is
  a table without a header.
\<close>

theorem empty_frame_has_no_columns_counterexample:
  "generate_credit_score_data toy_libs 0 (toy_state 42 42) =
     Inr (\<lparr>columns = [], rows = []\<rparr>, toy_state 42 42) \<and>
   shape \<lparr>columns = [], rows = []\<rparr> = (0, 0) \<and>
   columns \<lparr>columns = [], rows = []\<rparr> \<noteq> FIELDS"
  by (simp add: toy_run_0 DataFrame_def shape_def FIELDS_def)

text \<open>
  Claim C1, amended. For every integer \<open>N\<close> the call returns, without an error, a
  table with exactly \<open>max N 0\<close> rows; for \<open>N \<ge> 1\<close> its columns are the 28 fields in
  their fixed order, for \<open>N \<le> 0\<close> it has no columns; every row has one cell per column.
\<close>

theorem generated_frame_shape:
  "\<exists>df s'. generate_credit_score_data L n s = Inr (df, s') \<and>
     length (rows df) = nat n \<and>
     columns df = (if 1 \<le> n then FIELDS else []) \<and>
     shape df = (nat n, if 1 \<le> n then 28 else 0) \<and>
     (\<forall>row\<in>set (rows df). length row = length (columns df))"
proof -
  from succeeds_generate_credit_score_data [of L n] obtain df s' where
    g: "generate_credit_score_data L n s = Inr (df, s')"
    unfolding succeeds_def by blast
  from generate_frame_columns [OF g] have
    c: "columns df = (if 1 \<le> n then FIELDS else [])" and r: "length (rows df) = nat n" and
    w: "\<forall>row\<in>set (rows df). length row = length (columns df)"
    by auto
  from c r have "shape df = (nat n, if 1 \<le> n then 28 else 0)"
    by (simp add: shape_def FIELDS_def)
  with g c r w show ?thesis by blast
qed

theorem generated_frame_shape_witness:
  "generate_credit_score_data toy_libs 2 (toy_state 42 42) =
     Inr (DataFrame [toy_record_a 0, toy_record_b 1], toy_state 92 46) \<and>
   length (rows (DataFrame [toy_record_a 0, toy_record_b 1])) = 2 \<and>
   columns (DataFrame [toy_record_a 0, toy_record_b 1]) = FIELDS \<and>
   shape (DataFrame [toy_record_a 0, toy_record_b 1]) = (2, 28)"
proof -
  from generated_frame_shape [of toy_libs 2 "toy_state 42 42"] obtain df s' where
    g: "generate_credit_score_data toy_libs 2 (toy_state 42 42) = Inr (df, s')" and
    f: "length (rows df) = nat 2" "columns df = FIELDS" "shape df = (nat 2, 28)"
    by auto
  from g have "df = DataFrame [toy_record_a 0, toy_record_b 1]"
    by (simp add: toy_run_2)
  with f show ?thesis by (simp add: toy_run_2)
qed

text \<open>
  Claim C9. For every \<open>N\<close> and every two distinct row indices \<open>i < j < N\<close>, the rows
  differ in \<open>ID\<close> and in \<open>Customer_ID\<close>: the \<open>ID\<close> of row \<open>i\<close> is \<^verbatim>\<open>CUS_0x\<close> followed by
  \<open>i + 1\<close> in hexadecimal, padded with zeros to six digits, its \<open>Customer_ID\<close> is
  \<^verbatim>\<open>CUS_\<close> followed by \<open>i + 1\<close> in decimal, padded to eight digits, and both are
  injective functions of the index.
\<close>

theorem identifiers_pairwise_distinct:
  assumes "generate_credit_score_data L n s = Inr (df, s')" and "i < j" and "j < nat n"
  shows "df_at df i ''ID'' = Some (StrV (''CUS_0x'' @ zero_pad 6 (digits_of 16 (i + 1)))) \<and>
     df_at df j ''ID'' = Some (StrV (''CUS_0x'' @ zero_pad 6 (digits_of 16 (j + 1)))) \<and>
     df_at df i ''Customer_ID'' = Some (StrV (''CUS_'' @ zero_pad 8 (digits_of 10 (i + 1)))) \<and>
     df_at df j ''Customer_ID'' = Some (StrV (''CUS_'' @ zero_pad 8 (digits_of 10 (j + 1)))) \<and>
     df_at df i ''ID'' \<noteq> df_at df j ''ID'' \<and>
     df_at df i ''Customer_ID'' \<noteq> df_at df j ''Customer_ID'' \<and>
     inj record_ID \<and> inj record_Customer_ID"
proof -
  have id: "df_at df k ''ID'' = Some (StrV (record_ID k))"
    and cid: "df_at df k ''Customer_ID'' = Some (StrV (record_Customer_ID k))"
    if "k < nat n" for k
  proof -
    from generate_frame_row [OF assms(1) that] obtain r t t' where
      r: "generate_record L k t = Inr (r, t')" and
      c: "\<forall>c\<in>set FIELDS. df_at df k c = map_of r c"
      by blast
    from c have "df_at df k ''ID'' = map_of r ''ID''"
      and "df_at df k ''Customer_ID'' = map_of r ''Customer_ID''"
      by (simp_all add: FIELDS_def)
    with record_shape [OF r]
    show "df_at df k ''ID'' = Some (StrV (record_ID k))"
      and "df_at df k ''Customer_ID'' = Some (StrV (record_Customer_ID k))"
      by simp_all
  qed
  from assms have i: "i < nat n" and j: "j < nat n" and ne: "i \<noteq> j" by simp_all
  have d1: "record_ID i \<noteq> record_ID j"
    using ne record_ID_inj by blast
  have d2: "record_Customer_ID i \<noteq> record_Customer_ID j"
    using ne record_Customer_ID_inj by blast
  have inj: "inj record_ID \<and> inj record_Customer_ID"
    by (auto intro!: injI dest: record_ID_inj record_Customer_ID_inj)
  from id [OF i] id [OF j] cid [OF i] cid [OF j] d1 d2 inj show ?thesis
    by (simp add: record_ID_def record_Customer_ID_def format_06x_def format_08d_def)
qed

theorem identifiers_pairwise_distinct_witness:
  "generate_credit_score_data toy_libs 2 (toy_state 42 42) =
     Inr (DataFrame [toy_record_a 0, toy_record_b 1], toy_state 92 46) \<and>
   (0::nat) < 1 \<and> (1::nat) < nat 2 \<and>
   df_at (DataFrame [toy_record_a 0, toy_record_b 1]) 0 ''ID'' = Some (StrV ''CUS_0x000001'') \<and>
   df_at (DataFrame [toy_record_a 0, toy_record_b 1]) 1 ''ID'' = Some (StrV ''CUS_0x000002'') \<and>
   df_at (DataFrame [toy_record_a 0, toy_record_b 1]) 0 ''Customer_ID'' =
     Some (StrV ''CUS_00000001'') \<and>
   df_at (DataFrame [toy_record_a 0, toy_record_b 1]) 1 ''Customer_ID'' =
     Some (StrV ''CUS_00000002'')"
proof -
  have v:
    "''CUS_0x'' @ zero_pad 6 (digits_of 16 (0 + 1)) = ''CUS_0x000001''"
    "''CUS_0x'' @ zero_pad 6 (digits_of 16 (1 + 1)) = ''CUS_0x000002''"
    "''CUS_'' @ zero_pad 8 (digits_of 10 (0 + 1)) = ''CUS_00000001''"
    "''CUS_'' @ zero_pad 8 (digits_of 10 (1 + 1)) = ''CUS_00000002''"
    by code_simp+
  from identifiers_pairwise_distinct [OF toy_run_2, of 0 1] show ?thesis
    unfolding v by (simp add: toy_run_2)
qed

section \<open>Claims about the values of a record\<close>

text \<open>
  Claim C4. In every row of a generated table, the age lies in \<open>[18, 80)\<close>, the number
  of bank accounts in \<open>{1..5}\<close>, the number of credit cards in \<open>{0..5}\<close>, the interest
  rate in \<open>[5, 25]\<close>, the delay from the due date in \<open>{0..59}\<close> and the age of the credit
  history in \<open>[6, 300)\<close>, for every generator that keeps the documented ranges of its
  draws.
\<close>

theorem generated_values_in_range:
  assumes "libs_ok L" and "generate_credit_score_data L n s = Inr (df, s')" and "k < nat n"
  shows "\<exists>age banks cards rate delay history.
     df_at df k ''Age'' = Some (IntV age) \<and> 18 \<le> age \<and> age < 80 \<and>
     df_at df k ''Num_Bank_Accounts'' = Some (IntV banks) \<and> banks \<in> {1, 2, 3, 4, 5} \<and>
     df_at df k ''Num_Credit_Card'' = Some (IntV cards) \<and> cards \<in> {0, 1, 2, 3, 4, 5} \<and>
     df_at df k ''Interest_Rate'' = Some (FloatV rate) \<and> 5 \<le> rate \<and> rate \<le> 25 \<and>
     df_at df k ''Delay_from_due_date'' = Some (IntV delay) \<and> 0 \<le> delay \<and> delay \<le> 59 \<and>
     df_at df k ''Credit_History_Age'' = Some (IntV history) \<and> 6 \<le> history \<and> history < 300"
proof -
  from generate_frame_row [OF assms(2, 3)] obtain r t t' where
    r: "generate_record L k t = Inr (r, t')" and
    c: "\<forall>c\<in>set FIELDS. df_at df k c = map_of r c"
    by blast
  from c have "df_at df k ''Age'' = map_of r ''Age''"
    and "df_at df k ''Num_Bank_Accounts'' = map_of r ''Num_Bank_Accounts''"
    and "df_at df k ''Num_Credit_Card'' = map_of r ''Num_Credit_Card''"
    and "df_at df k ''Interest_Rate'' = map_of r ''Interest_Rate''"
    and "df_at df k ''Delay_from_due_date'' = map_of r ''Delay_from_due_date''"
    and "df_at df k ''Credit_History_Age'' = map_of r ''Credit_History_Age''"
    by (simp_all add: FIELDS_def)
  with record_ranges [OF assms(1) r] show ?thesis by simp
qed

theorem generated_values_in_range_witness:
  "libs_ok toy_libs \<and>
   generate_credit_score_data toy_libs 2 (toy_state 42 42) =
     Inr (DataFrame [toy_record_a 0, toy_record_b 1], toy_state 92 46) \<and>
   (1::nat) < nat 2 \<and>
   df_at (DataFrame [toy_record_a 0, toy_record_b 1]) 1 ''Age'' = Some (IntV 23) \<and>
   df_at (DataFrame [toy_record_a 0, toy_record_b 1]) 1 ''Num_Bank_Accounts'' = Some (IntV 5) \<and>
   df_at (DataFrame [toy_record_a 0, toy_record_b 1]) 1 ''Num_Credit_Card'' = Some (IntV 0) \<and>
   df_at (DataFrame [toy_record_a 0, toy_record_b 1]) 1 ''Interest_Rate'' = Some (FloatV 10) \<and>
   df_at (DataFrame [toy_record_a 0, toy_record_b 1]) 1 ''Delay_from_due_date'' = Some (IntV 59) \<and>
   df_at (DataFrame [toy_record_a 0, toy_record_b 1]) 1 ''Credit_History_Age'' = Some (IntV 77)"
proof -
  let ?df = "DataFrame [toy_record_a 0, toy_record_b 1]"
  have cols: "columns ?df = FIELDS"
    using generate_frame_columns [OF toy_run_2] by simp
  have cell: "df_at ?df 1 c = map_of (toy_record_b 1) c" if "c \<in> set FIELDS" for c
    using df_at_DataFrame [OF cols that, of 1] by simp
  have m: "df_at ?df 1 ''Age'' = map_of (toy_record_b 1) ''Age''"
    "df_at ?df 1 ''Num_Bank_Accounts'' = map_of (toy_record_b 1) ''Num_Bank_Accounts''"
    "df_at ?df 1 ''Num_Credit_Card'' = map_of (toy_record_b 1) ''Num_Credit_Card''"
    "df_at ?df 1 ''Interest_Rate'' = map_of (toy_record_b 1) ''Interest_Rate''"
    "df_at ?df 1 ''Delay_from_due_date'' = map_of (toy_record_b 1) ''Delay_from_due_date''"
    "df_at ?df 1 ''Credit_History_Age'' = map_of (toy_record_b 1) ''Credit_History_Age''"
    using cell [of "''Age''"] cell [of "''Num_Bank_Accounts''"] cell [of "''Num_Credit_Card''"]
      cell [of "''Interest_Rate''"] cell [of "''Delay_from_due_date''"]
      cell [of "''Credit_History_Age''"]
    by (simp_all add: FIELDS_def)
  have v: "df_at ?df 1 ''Age'' = Some (IntV 23)"
    "df_at ?df 1 ''Num_Bank_Accounts'' = Some (IntV 5)"
    "df_at ?df 1 ''Num_Credit_Card'' = Some (IntV 0)"
    "df_at ?df 1 ''Interest_Rate'' = Some (FloatV 10)"
    "df_at ?df 1 ''Delay_from_due_date'' = Some (IntV 59)"
    "df_at ?df 1 ''Credit_History_Age'' = Some (IntV 77)"
    unfolding m by (simp_all add: toy_record_b_def)
  from generated_values_in_range [OF libs_ok_toy toy_run_2, of 1] v show ?thesis
    by (simp add: libs_ok_toy toy_run_2)
qed



end
